theory Spec2Isabelle
  imports Complex_Main
begin

section \<open>Pane component of chat-llm: keystroke routing and input sizing\<close>

text \<open>
  The development embeds two parts of \<^verbatim>\<open>src/components/pane/Pane.tsx\<close>: the
  \<^verbatim>\<open>onKeydown\<close> handler of the message input (lines 92-132) and the layout effect that
  sizes the input (lines 56-90).

  Strings are lists of characters; a character stands for the code unit of the same
  number (code units below 256). Numbers that the browser hands out as integers
  (\<^verbatim>\<open>window.innerHeight\<close>, \<^verbatim>\<open>scrollHeight\<close>, the result of \<^verbatim>\<open>parseInt\<close>) are
  integers, and the quotients the code forms from them are exact rationals. A double
  holds these integers exactly, and for the sizes a browser reports the rounding of a
  quotient changes neither its comparison with an integer nor its ceiling.
\<close>

subsection \<open>String operations of the language\<close>

text \<open>\<^verbatim>\<open>s.startsWith(p)\<close>.\<close>

definition startsWith :: "string \<Rightarrow> string \<Rightarrow> bool" where
  "startsWith s p = (take (length p) s = p)"

text \<open>
  \<^verbatim>\<open>s.split(sep)\<close> for a separator of one character: the pieces between the
  separators, empty pieces included, never the empty array.
\<close>

fun split :: "char \<Rightarrow> string \<Rightarrow> string list" where
  "split sep [] = [[]]"
| "split sep (c # cs) =
     (if c = sep then [] # split sep cs
      else (case split sep cs of
              [] \<Rightarrow> [[c]]
            | w # ws \<Rightarrow> (c # w) # ws))"

text \<open>\<^verbatim>\<open>xs.join(sep)\<close>.\<close>

fun join :: "string \<Rightarrow> string list \<Rightarrow> string" where
  "join sep [] = []"
| "join sep [x] = x"
| "join sep (x # y # ys) = x @ sep @ join sep (y # ys)"

text \<open>
  \<^verbatim>\<open>s.toLowerCase()\<close> on code units below 256: the letters A-Z and the capital
  letters of Latin-1 (192-222 without the multiplication sign 215) move up by 32.
\<close>

definition lowerChar :: "char \<Rightarrow> char" where
  "lowerChar c =
     (let n = (of_char c :: nat)
      in if (65 \<le> n \<and> n \<le> 90) \<or> (192 \<le> n \<and> n \<le> 222 \<and> n \<noteq> 215)
         then char_of (n + 32) else c)"

definition toLowerCase :: "string \<Rightarrow> string" where
  "toLowerCase s = map lowerChar s"

text \<open>
  \<^verbatim>\<open>s.trim()\<close>: white space and line terminators are removed from both ends. Below
  256 these are tab, line feed, vertical tab, form feed, carriage return, space and
  the no-break space.
\<close>

definition isWhiteSpace :: "char \<Rightarrow> bool" where
  "isWhiteSpace c = ((of_char c :: nat) \<in> {9, 10, 11, 12, 13, 32, 160})"

definition trim :: "string \<Rightarrow> string" where
  "trim s = rev (dropWhile isWhiteSpace (rev (dropWhile isWhiteSpace s)))"

subsection \<open>The keystroke handler\<close>

record keyboard_event =
  key :: string
  shiftKey :: bool
  ctrlKey :: bool
  metaKey :: bool
  altKey :: bool

text \<open>
  The pane and the conversation come from modules outside this file; only the fields
  the handler reads are kept. The type of a preset identifier is a parameter.
\<close>

record pane =
  conversationId :: nat

record 'p conversation =
  presetId :: "'p option"

text \<open>The two store actions the handler dispatches.\<close>

datatype action =
    OpenConversation nat bool
  | SendMessage nat string

text \<open>
  What the handler does, in program order. \<open>AddConversation\<close> is the awaited call of
  \<^verbatim>\<open>db.addConversation\<close>; \<open>SetTimeout ms a\<close> registers a timer that dispatches \<open>a\<close>
  after \<open>ms\<close> milliseconds.
\<close>

datatype 'p effect =
    PreventDefault
  | SetMessageDraft string
  | AddConversation "'p option"
  | Dispatch action
  | SetTimeout nat action

text \<open>
  An async function ends by fulfilling or rejecting its promise. A rejection carries
  the reason of the awaited operation that failed, or a type error.
\<close>

datatype failure =
    TypeError
  | Rejection string

text \<open>
  The answers of the awaited collaborators: \<^verbatim>\<open>db.addConversation\<close> fulfils with the new
  identifier or rejects; the awaited dispatch of \<^verbatim>\<open>sendMessage\<close> fulfils or rejects.
\<close>

record 'p collaborators =
  addConversation :: "'p option \<Rightarrow> failure + nat"
  sendMessageOutcome :: "nat \<Rightarrow> string \<Rightarrow> failure option"

text \<open>\<^verbatim>\<open>conversation?.presetId\<close>, the conversation being undefined until the live query answers.\<close>

definition presetIdOf :: "'p conversation option \<Rightarrow> 'p option" where
  "presetIdOf conversation = (case conversation of None \<Rightarrow> None | Some c \<Rightarrow> presetId c)"

text \<open>Lines 128-130, after \<^verbatim>\<open>preventDefault\<close>: the draft is sent to the pane's conversation.\<close>

definition normalMessageHandling ::
  "'p collaborators \<Rightarrow> pane \<Rightarrow> string \<Rightarrow> 'p effect list \<times> failure option" where
  "normalMessageHandling db p messageDraft =
     ([PreventDefault,
       SetMessageDraft [],
       Dispatch (SendMessage (conversationId p) messageDraft)],
      sendMessageOutcome db (conversationId p) messageDraft)"

text \<open>
  Lines 111-124, after \<^verbatim>\<open>preventDefault\<close>: the draft is cleared, the conversation is
  created, and when that call fulfils the conversation is opened in a new pane and a
  timer of 100 ms is set to send the content. When the call rejects the handler
  rejects at the \<^verbatim>\<open>await\<close>, and nothing after it runs.
\<close>

definition newPaneHandling ::
  "'p collaborators \<Rightarrow> 'p conversation option \<Rightarrow> string \<Rightarrow> 'p effect list \<times> failure option" where
  "newPaneHandling db conversation content =
     (case addConversation db (presetIdOf conversation) of
        Inl err \<Rightarrow>
          ([PreventDefault,
            SetMessageDraft [],
            AddConversation (presetIdOf conversation)],
           Some err)
      | Inr newId \<Rightarrow>
          ([PreventDefault,
            SetMessageDraft [],
            AddConversation (presetIdOf conversation),
            Dispatch (OpenConversation newId True),
            SetTimeout 100 (SendMessage newId content)],
           None))"

text \<open>
  The handler. Its result is the list of effects and how the promise ends. An empty
  array of parts would make \<^verbatim>\<open>parts[0].toLowerCase()\<close> throw; \<open>split\<close> never
  returns one, so that branch is never taken.
\<close>

definition onKeydown ::
  "'p collaborators \<Rightarrow> pane \<Rightarrow> 'p conversation option \<Rightarrow> string \<Rightarrow> keyboard_event
     \<Rightarrow> 'p effect list \<times> failure option" where
  "onKeydown db p conversation messageDraft e =
     (if key e = ''Enter'' \<and> messageDraft \<noteq> [] \<and>
         \<not> shiftKey e \<and> \<not> ctrlKey e \<and> \<not> metaKey e \<and> \<not> altKey e
      then
        if startsWith messageDraft ''/'' then
          (case split (CHR '' '') messageDraft of
             [] \<Rightarrow> ([PreventDefault], Some TypeError)
           | part0 # rest \<Rightarrow>
               (let command = toLowerCase part0;
                    content = join '' '' rest
                in if command = ''/newpane'' \<and> trim content \<noteq> []
                   then newPaneHandling db conversation content
                   else normalMessageHandling db p messageDraft))
        else normalMessageHandling db p messageDraft
      else ([], None))"




text \<open>Readers of an effect list: the draft it leaves, and the messages it sends at once.\<close>

fun draftAfter :: "string \<Rightarrow> 'p effect list \<Rightarrow> string" where
  "draftAfter d [] = d"
| "draftAfter d (SetMessageDraft t # es) = draftAfter t es"
| "draftAfter d (_ # es) = draftAfter d es"

fun dispatched :: "'p effect list \<Rightarrow> action list" where
  "dispatched [] = []"
| "dispatched (Dispatch a # es) = a # dispatched es"
| "dispatched (_ # es) = dispatched es"

fun timers :: "'p effect list \<Rightarrow> (nat \<times> action) list" where
  "timers [] = []"
| "timers (SetTimeout ms a # es) = (ms, a) # timers es"
| "timers (_ # es) = timers es"

text \<open>
  The text of a draft before its first space character, and the text after it (empty
  when the draft has no space).
\<close>

abbreviation beforeFirstSpace :: "string \<Rightarrow> string" where
  "beforeFirstSpace d \<equiv> takeWhile (\<lambda>c. c \<noteq> CHR '' '') d"

abbreviation afterFirstSpace :: "string \<Rightarrow> string" where
  "afterFirstSpace d \<equiv> tl (dropWhile (\<lambda>c. c \<noteq> CHR '' '') d)"

text \<open>Enter with no modifier key held: the key test of lines 95-100.\<close>

definition plainEnter :: "keyboard_event \<Rightarrow> bool" where
  "plainEnter e =
     (key e = ''Enter'' \<and> \<not> shiftKey e \<and> \<not> ctrlKey e \<and> \<not> metaKey e \<and> \<not> altKey e)"

text \<open>The key event of a plain Enter.\<close>

definition enter :: keyboard_event where
  "enter = \<lparr>key = ''Enter'', shiftKey = False, ctrlKey = False, metaKey = False, altKey = False\<rparr>"

subsection \<open>The layout effect that sizes the input\<close>

text \<open>A value of \<^verbatim>\<open>style.height\<close>: \<^verbatim>\<open>"auto"\<close> or a number of pixels.\<close>

datatype css_length = Auto | Px rat

text \<open>
  The text area as the effect sees it. \<open>parsedLineHeight\<close> is the value of
  \<^verbatim>\<open>parseInt(window.getComputedStyle(textArea).lineHeight)\<close>, \<open>None\<close> for NaN (the
  computed value \<^verbatim>\<open>normal\<close>). \<open>height\<close>, \<open>overflowY\<close> and \<open>transition\<close> are the
  style properties in force, and \<open>scrollTop\<close> is the scroll position the effect
  assigns. \<open>layout\<close> is the browser's layout of the current draft: the scroll height
  the element has while its height, overflow-y and transition are the given ones. A
  scroll bar that appears under one overflow mode and not under another can change
  how the draft wraps, so the scroll height may depend on all three.
\<close>

record textarea =
  parsedLineHeight :: "int option"
  layout :: "css_length \<Rightarrow> string \<Rightarrow> string \<Rightarrow> int"
  height :: css_length
  overflowY :: string
  transition :: string
  scrollTop :: int

text \<open>Reading \<^verbatim>\<open>textArea.scrollHeight\<close>: the layout under the style in force.\<close>

definition scrollHeight :: "textarea \<Rightarrow> int" where
  "scrollHeight t = layout t (height t) (overflowY t) (transition t)"

text \<open>
  The natural height of the draft as line 70 measures it: the scroll height once
  \<^verbatim>\<open>style.height\<close> is \<^verbatim>\<open>auto\<close>, the rest of the style being as the text area has it.
\<close>

abbreviation naturalHeight :: "textarea \<Rightarrow> int" where
  "naturalHeight t \<equiv> scrollHeight (t\<lparr>height := Auto\<rparr>)"

text \<open>\<^verbatim>\<open>parseInt(...) || 20\<close>: NaN and 0 are falsy.\<close>

definition lineHeightOf :: "int option \<Rightarrow> int" where
  "lineHeightOf parsed = (case parsed of None \<Rightarrow> 20 | Some n \<Rightarrow> if n = 0 then 20 else n)"

text \<open>
  Lines 56-90. The arguments are \<^verbatim>\<open>window.innerHeight\<close>, whether the text area is
  \<^verbatim>\<open>document.activeElement\<close>, and \<^verbatim>\<open>textAreaRef.current\<close> (\<open>None\<close> for null, where
  the effect returns at once).
\<close>

definition layoutEffect :: "int \<Rightarrow> bool \<Rightarrow> textarea option \<Rightarrow> textarea option" where
  "layoutEffect innerHeight isActiveElement current =
     (case current of
        None \<Rightarrow> None
      | Some textArea \<Rightarrow>
          (let maxSize = (of_int innerHeight :: rat) / 2.5;
               minHeight = (55 :: int);
               lineHeight = lineHeightOf (parsedLineHeight textArea);
               t1 = textArea\<lparr>height := Auto\<rparr>;
               contentHeight = max minHeight (scrollHeight t1);
               isMaxSize = (of_int contentHeight > maxSize);
               t2 = (if isMaxSize
                     then t1\<lparr>height := Px maxSize,
                            overflowY := ''auto'',
                            transition := ''height 0.1s ease-out''\<rparr>
                     else (let roundedHeight =
                                 \<lceil>(of_int contentHeight :: rat) / of_int lineHeight\<rceil> * lineHeight
                           in t1\<lparr>height := Px (of_int roundedHeight),
                                 overflowY := ''hidden'',
                                 transition := ''none''\<rparr>))
           in Some (if isActiveElement
                    then t2\<lparr>scrollTop := scrollHeight t2\<rparr>
                    else t2)))"

text \<open>The output of the sizing: height, scroll mode, transition.\<close>

definition sizing :: "textarea \<Rightarrow> css_length \<times> string \<times> string" where
  "sizing t = (height t, overflowY t, transition t)"

subsection \<open>Inputs used in the examples\<close>

definition paneA :: pane where
  "paneA = \<lparr>conversationId = 3\<rparr>"

text \<open>A store whose creation call fulfils with the identifier 7, and one whose call rejects.\<close>

definition dbCreates :: "nat collaborators" where
  "dbCreates = \<lparr>addConversation = (\<lambda>_. Inr 7), sendMessageOutcome = (\<lambda>_ _. None)\<rparr>"

definition dbFails :: "nat collaborators" where
  "dbFails = \<lparr>addConversation = (\<lambda>_. Inl (Rejection ''quota exceeded'')),
              sendMessageOutcome = (\<lambda>_ _. None)\<rparr>"

text \<open>
  A text area whose scroll height is \<open>h\<close> whatever its style, with the parsed line
  height \<open>lh\<close>, styled as the component renders it at first.
\<close>

definition textAreaOf :: "int option \<Rightarrow> int \<Rightarrow> textarea" where
  "textAreaOf lh h =
     \<lparr>parsedLineHeight = lh, layout = (\<lambda>_ _ _. h), height = Auto,
      overflowY = ''hidden'', transition = ''none'', scrollTop = 0\<rparr>"


section \<open>Properties of the string operations\<close>

lemma split_not_Nil: "split sep s \<noteq> []"
  by (induction s) (auto split: list.splits)

lemma join_Cons: "ws \<noteq> [] \<Longrightarrow> join sep (w # ws) = w @ sep @ join sep ws"
  by (cases ws) auto

text \<open>Joining the pieces with the separator gives the string back.\<close>

lemma join_split: "join [sep] (split sep s) = s"
proof (induction s)
  case Nil
  show ?case by simp
next
  case (Cons c cs)
  show ?case
  proof (cases "split sep cs")
    case Nil
    then show ?thesis using split_not_Nil by blast
  next
    case (Cons w ws)
    then show ?thesis using Cons.IH
      by (cases ws) (auto simp: join_Cons split_not_Nil)
  qed
qed

text \<open>
  The first piece is the text before the first separator, and the other pieces joined
  again are the text after it.
\<close>

lemma split_parts:
  "\<exists>rest. split sep s = takeWhile (\<lambda>c. c \<noteq> sep) s # rest \<and>
          join [sep] rest = tl (dropWhile (\<lambda>c. c \<noteq> sep) s)"
proof (induction s)
  case Nil
  show ?case by simp
next
  case (Cons c cs)
  then obtain rest where r: "split sep cs = takeWhile (\<lambda>c. c \<noteq> sep) cs # rest"
      "join [sep] rest = tl (dropWhile (\<lambda>c. c \<noteq> sep) cs)" by blast
  show ?case
  proof (cases "c = sep")
    case True
    then show ?thesis using join_split[of sep cs] by simp
  next
    case False
    then show ?thesis using r by simp
  qed
qed

section \<open>The handler on a draft that starts with a slash\<close>

lemma onKeydown_slash:
  assumes "plainEnter e" and "startsWith d ''/''"
  shows "onKeydown db p conversation d e =
           (if toLowerCase (beforeFirstSpace d) = ''/newpane'' \<and> trim (afterFirstSpace d) \<noteq> []
            then newPaneHandling db conversation (afterFirstSpace d)
            else normalMessageHandling db p d)"
proof -
  obtain rest where r: "split (CHR '' '') d = beforeFirstSpace d # rest"
      "join '' '' rest = afterFirstSpace d"
    using split_parts[of "CHR '' ''" d] by blast
  have ne: "d \<noteq> []" using assms(2) by (auto simp: startsWith_def)
  show ?thesis using assms ne r
    by (simp add: onKeydown_def plainEnter_def Let_def)
qed

lemma plainEnter_enter: "plainEnter enter"
  by (simp add: plainEnter_def enter_def)

section \<open>Properties of the sizing arithmetic\<close>

text \<open>
  Rounding up to a multiple of a positive step: the result is a multiple of the step,
  is not below the value, and exceeds it by less than one step.
\<close>

lemma round_up:
  fixes c l :: int
  assumes "0 < l"
  defines "m \<equiv> \<lceil>(of_int c :: rat) / of_int l\<rceil> * l"
  shows "l dvd m" and "c \<le> m" and "m < c + l"
proof -
  show "l dvd m" by (simp add: m_def)
  have e: "\<lceil>(of_int c :: rat) / of_int l\<rceil> = - ((- c) div l)"
    by (rule ceiling_divide_eq_div)
  have d: "- c = ((- c) div l) * l + (- c) mod l" by simp
  have r: "0 \<le> (- c) mod l" "(- c) mod l < l" using assms(1) by simp_all
  have m: "m = - (((- c) div l) * l)" by (simp add: m_def e)
  show "c \<le> m" using d r m by linarith
  show "m < c + l" using d r m by linarith
qed

lemma lineHeightOf_pos:
  "(case parsed of None \<Rightarrow> True | Some n \<Rightarrow> 0 \<le> n) \<Longrightarrow> 0 < lineHeightOf parsed"
  by (auto simp: lineHeightOf_def split: option.splits)

text \<open>The two branches of the effect, as equations for its output.\<close>

lemma sizing_clamped:
  assumes "(of_int innerHeight :: rat) / 2.5 < of_int (max 55 (naturalHeight t))"
  shows "map_option sizing (layoutEffect innerHeight f (Some t)) =
           Some (Px (of_int innerHeight / 2.5), ''auto'', ''height 0.1s ease-out'')"
  using assms by (simp add: layoutEffect_def sizing_def Let_def)

lemma sizing_unclamped:
  assumes "of_int (max 55 (naturalHeight t)) \<le> (of_int innerHeight :: rat) / 2.5"
  shows "map_option sizing (layoutEffect innerHeight f (Some t)) =
           Some (Px (of_int (\<lceil>(of_int (max 55 (naturalHeight t)) :: rat) /
                               of_int (lineHeightOf (parsedLineHeight t))\<rceil> *
                             lineHeightOf (parsedLineHeight t))),
                 ''hidden'', ''none'')"
  using assms by (simp add: layoutEffect_def sizing_def Let_def not_less [symmetric])

section \<open>The claims\<close>

subsection \<open>C1\<close>

text \<open>
  C1, as amended. On a \<^verbatim>\<open>/newpane\<close> submission whose creation call fulfils with a
  new identifier, the handler clears the draft, awaits the creation, dispatches the
  opening of the new pane, and only then arranges the delivery of the content: it sets
  a timer of the constant 100 ms that will dispatch the send. The delivery is ordered
  after the fulfilled creation call, and the fixed timer is the only mechanism between
  the opening of the pane and the send.
\<close>

theorem newpane_send_deferred_by_timer:
  assumes "plainEnter e" and "startsWith d ''/''"
    and "toLowerCase (beforeFirstSpace d) = ''/newpane''"
    and "trim (afterFirstSpace d) \<noteq> []"
    and "addConversation db (presetIdOf conversation) = Inr newId"
  shows "onKeydown db p conversation d e =
           ([PreventDefault,
             SetMessageDraft [],
             AddConversation (presetIdOf conversation),
             Dispatch (OpenConversation newId True),
             SetTimeout 100 (SendMessage newId (afterFirstSpace d))],
            None)"
  using assms by (simp add: onKeydown_slash newPaneHandling_def)

theorem newpane_send_deferred_by_timer_witness:
  "plainEnter enter \<and> startsWith ''/newpane buy milk'' ''/'' \<and>
   toLowerCase (beforeFirstSpace ''/newpane buy milk'') = ''/newpane'' \<and>
   trim (afterFirstSpace ''/newpane buy milk'') \<noteq> [] \<and>
   addConversation dbCreates (presetIdOf None) = Inr 7 \<and>
   onKeydown dbCreates paneA None ''/newpane buy milk'' enter =
     ([PreventDefault, SetMessageDraft [], AddConversation None,
       Dispatch (OpenConversation 7 True),
       SetTimeout 100 (SendMessage 7 ''buy milk'')],
      None)"
proof -
  have h1: "plainEnter enter" by (rule plainEnter_enter)
  have h2: "startsWith ''/newpane buy milk'' ''/''" by (simp add: startsWith_def)
  have h3: "toLowerCase (beforeFirstSpace ''/newpane buy milk'') = ''/newpane''"
    by (simp add: toLowerCase_def lowerChar_def)
  have h4: "trim (afterFirstSpace ''/newpane buy milk'') \<noteq> []"
    by (simp add: trim_def isWhiteSpace_def)
  have h5: "addConversation dbCreates (presetIdOf (None :: nat conversation option)) = Inr 7"
    by (simp add: dbCreates_def)
  show ?thesis
    using h1 h2 h3 h4 h5
      newpane_send_deferred_by_timer [OF h1 h2 h3 h4 h5, of paneA]
    by (simp add: presetIdOf_def)
qed

text \<open>
  C1 as stated fails: for the draft \<^verbatim>\<open>/newpane buy milk\<close> the send is not among the
  actions the handler dispatches; it is handed to a timer of 100 ms.
\<close>

theorem newpane_timer_counterexample:
  "timers (fst (onKeydown dbCreates paneA None ''/newpane buy milk'' enter)) =
     [(100, SendMessage 7 ''buy milk'')] \<and>
   dispatched (fst (onKeydown dbCreates paneA None ''/newpane buy milk'' enter)) =
     [OpenConversation 7 True]"
  by code_simp

subsection \<open>C2\<close>

text \<open>
  C2, as amended. On a draft that starts with a slash, the handler's \<^verbatim>\<open>split(' ')\<close>
  cuts at every single space character, so the command is the lower-cased text before
  the first space (the whole draft when it has none; tabs and line breaks do not
  separate) and the content is the whole text after that first space, unchanged, further
  spaces included. The submission is a new-pane command exactly when that command is
  \<^verbatim>\<open>/newpane\<close> and the content is not blank.
\<close>

theorem command_cut_at_first_space:
  assumes "plainEnter e" and "startsWith d ''/''"
  shows "(\<exists>rest. split (CHR '' '') d = beforeFirstSpace d # rest \<and>
                 join '' '' rest = afterFirstSpace d) \<and>
         onKeydown db p conversation d e =
           (if toLowerCase (beforeFirstSpace d) = ''/newpane'' \<and> trim (afterFirstSpace d) \<noteq> []
            then newPaneHandling db conversation (afterFirstSpace d)
            else normalMessageHandling db p d)"
  using assms split_parts [of "CHR '' ''" d] onKeydown_slash [of e d db p conversation]
  by simp

theorem command_cut_at_first_space_witness:
  "plainEnter enter \<and> startsWith ''/NewPane  hello world'' ''/'' \<and>
   split (CHR '' '') ''/NewPane  hello world'' = [''/NewPane'', [], ''hello'', ''world''] \<and>
   onKeydown dbCreates paneA None ''/NewPane  hello world'' enter =
     newPaneHandling dbCreates None '' hello world''"
proof -
  have h1: "plainEnter enter" by (rule plainEnter_enter)
  have h2: "startsWith ''/NewPane  hello world'' ''/''" by (simp add: startsWith_def)
  have h3: "split (CHR '' '') ''/NewPane  hello world'' = [''/NewPane'', [], ''hello'', ''world'']"
    by simp
  have h4: "toLowerCase (beforeFirstSpace ''/NewPane  hello world'') = ''/newpane''"
    by code_simp
  have h5: "trim '' hello world'' \<noteq> []"
    by (simp add: trim_def isWhiteSpace_def)
  have h6: "afterFirstSpace ''/NewPane  hello world'' = '' hello world''"
    by simp
  show ?thesis
    using h1 h2 h3 command_cut_at_first_space [OF h1 h2, of dbCreates paneA None]
    by (simp only: h4 h5 h6 simp_thms if_True)
qed

text \<open>
  C2 as stated fails: with two spaces after the command the content keeps the second
  space, so the message that is scheduled is \<^verbatim>\<open>" hello world"\<close>, not \<^verbatim>\<open>"hello world"\<close>.
\<close>

theorem newpane_two_spaces_counterexample:
  "timers (fst (onKeydown dbCreates paneA None ''/newpane  hello world'' enter)) =
     [(100, SendMessage 7 '' hello world'')] \<and>
   timers (fst (onKeydown dbCreates paneA None ''/newpane  hello world'' enter)) \<noteq>
     [(100, SendMessage 7 ''hello world'')]"
  by code_simp

subsection \<open>C3\<close>

text \<open>
  C3, as amended. When the natural height of the draft is at most 55, the viewport
  leaves room for 55 (55 is at most the viewport height divided by 2.5) and the parsed
  line height is not negative, the height is 55 rounded up to a multiple of the line
  height: at least 55, less than 55 plus one line, and exactly 55 only when the line
  height divides 55. Internal scrolling is disabled and no transition is set.
\<close>

theorem empty_draft_height:
  assumes "naturalHeight t \<le> 55"
    and "(55 :: rat) \<le> of_int innerHeight / 2.5"
    and "case parsedLineHeight t of None \<Rightarrow> True | Some n \<Rightarrow> 0 \<le> n"
  shows "map_option sizing (layoutEffect innerHeight f (Some t)) =
           Some (Px (of_int (\<lceil>(55 :: rat) / of_int (lineHeightOf (parsedLineHeight t))\<rceil> *
                             lineHeightOf (parsedLineHeight t))),
                 ''hidden'', ''none'') \<and>
         55 \<le> \<lceil>(55 :: rat) / of_int (lineHeightOf (parsedLineHeight t))\<rceil> *
                lineHeightOf (parsedLineHeight t) \<and>
         \<lceil>(55 :: rat) / of_int (lineHeightOf (parsedLineHeight t))\<rceil> *
           lineHeightOf (parsedLineHeight t) < 55 + lineHeightOf (parsedLineHeight t) \<and>
         (\<lceil>(55 :: rat) / of_int (lineHeightOf (parsedLineHeight t))\<rceil> *
            lineHeightOf (parsedLineHeight t) = 55) =
           (lineHeightOf (parsedLineHeight t) dvd 55)"
proof -
  define l where "l = lineHeightOf (parsedLineHeight t)"
  define m where "m = \<lceil>(55 :: rat) / of_int l\<rceil> * l"
  have l: "0 < l" using assms(3) by (simp add: l_def lineHeightOf_pos)
  have mx: "max 55 (naturalHeight t) = 55" using assms(1) by simp
  have s: "map_option sizing (layoutEffect innerHeight f (Some t)) =
             Some (Px (of_int m), ''hidden'', ''none'')"
    using sizing_unclamped [of t innerHeight f] assms(2) by (simp add: mx m_def l_def)
  have r: "l dvd m" "55 \<le> m" "m < 55 + l"
    using round_up [OF l, of 55] by (simp_all add: m_def)
  have d: "(m = 55) = (l dvd 55)"
  proof
    assume "m = 55" then show "l dvd 55" using r(1) by simp
  next
    assume "l dvd 55"
    then have "l dvd (m - 55)" using r(1) by simp
    moreover have "0 \<le> m - 55" "m - 55 < l" using r by simp_all
    ultimately have "m - 55 = 0" using zdvd_not_zless [of "m - 55" l] by force
    then show "m = 55" by simp
  qed
  show ?thesis using s r(2,3) d by (simp add: m_def l_def)
qed

theorem empty_draft_height_witness:
  "naturalHeight (textAreaOf (Some 24) 48) \<le> 55 \<and>
   (55 :: rat) \<le> of_int 1000 / 2.5 \<and>
   map_option sizing (layoutEffect 1000 True (Some (textAreaOf (Some 24) 48))) =
     Some (Px 72, ''hidden'', ''none'') \<and>
   map_option sizing (layoutEffect 1000 True (Some (textAreaOf (Some 11) 48))) =
     Some (Px 55, ''hidden'', ''none'')"
proof -
  have a1: "naturalHeight (textAreaOf (Some 24) 48) \<le> 55" by (simp add: textAreaOf_def scrollHeight_def)
  have a2: "(55 :: rat) \<le> of_int 1000 / 2.5" by simp
  have a3: "case parsedLineHeight (textAreaOf (Some 24) 48) of None \<Rightarrow> True | Some n \<Rightarrow> 0 \<le> n"
    by (simp add: textAreaOf_def scrollHeight_def)
  have b1: "naturalHeight (textAreaOf (Some 11) 48) \<le> 55" by (simp add: textAreaOf_def scrollHeight_def)
  have b3: "case parsedLineHeight (textAreaOf (Some 11) 48) of None \<Rightarrow> True | Some n \<Rightarrow> 0 \<le> n"
    by (simp add: textAreaOf_def scrollHeight_def)
  have c1: "\<lceil>(55 :: rat) / 24\<rceil> = 3" by (simp add: ceiling_eq_iff)
  have c2: "\<lceil>(55 :: rat) / 11\<rceil> = 5" by (simp add: ceiling_eq_iff)
  show ?thesis
    using a1 a2 empty_draft_height [OF a1 a2 a3, of True] empty_draft_height [OF b1 a2 b3, of True]
    by (simp add: textAreaOf_def scrollHeight_def lineHeightOf_def c1 c2)
qed

text \<open>
  C3 as stated fails: with a line height of 24 pixels and a natural height of 48 the
  height is 72, not 55.
\<close>

theorem empty_draft_height_counterexample:
  "map_option sizing (layoutEffect 1000 False (Some (textAreaOf (Some 24) 48))) =
     Some (Px 72, ''hidden'', ''none'') \<and>
   map_option sizing (layoutEffect 1000 False (Some (textAreaOf (Some 24) 48))) \<noteq>
     Some (Px 55, ''hidden'', ''none'')"
  by code_simp

subsection \<open>C4\<close>

text \<open>
  C4, as amended. In the branch that does not clamp, with a parsed line height that is
  not negative, the height is the target (the larger of 55 and the natural height)
  rounded up to a multiple of the line height, multiples being counted from 0 and not
  from the minimum height: a multiple of the line height, not below the target, and
  less than one line above it. Internal scrolling is disabled and no transition is set.
\<close>

theorem unclamped_height_rounds_up:
  assumes "of_int (max 55 (naturalHeight t)) \<le> (of_int innerHeight :: rat) / 2.5"
    and "case parsedLineHeight t of None \<Rightarrow> True | Some n \<Rightarrow> 0 \<le> n"
  shows "map_option sizing (layoutEffect innerHeight f (Some t)) =
           Some (Px (of_int (\<lceil>(of_int (max 55 (naturalHeight t)) :: rat) /
                               of_int (lineHeightOf (parsedLineHeight t))\<rceil> *
                             lineHeightOf (parsedLineHeight t))),
                 ''hidden'', ''none'') \<and>
         lineHeightOf (parsedLineHeight t) dvd
           \<lceil>(of_int (max 55 (naturalHeight t)) :: rat) /
              of_int (lineHeightOf (parsedLineHeight t))\<rceil> * lineHeightOf (parsedLineHeight t) \<and>
         max 55 (naturalHeight t) \<le>
           \<lceil>(of_int (max 55 (naturalHeight t)) :: rat) /
              of_int (lineHeightOf (parsedLineHeight t))\<rceil> * lineHeightOf (parsedLineHeight t) \<and>
         \<lceil>(of_int (max 55 (naturalHeight t)) :: rat) /
            of_int (lineHeightOf (parsedLineHeight t))\<rceil> * lineHeightOf (parsedLineHeight t)
           < max 55 (naturalHeight t) + lineHeightOf (parsedLineHeight t)"
proof -
  have l: "0 < lineHeightOf (parsedLineHeight t)" using assms(2) by (rule lineHeightOf_pos)
  show ?thesis
    using sizing_unclamped [OF assms(1), of f]
      round_up [OF l, of "max 55 (naturalHeight t)"]
    by simp
qed

theorem unclamped_height_rounds_up_witness:
  "of_int (max 55 (naturalHeight (textAreaOf (Some 20) 61))) \<le> (of_int 1000 :: rat) / 2.5 \<and>
   map_option sizing (layoutEffect 1000 False (Some (textAreaOf (Some 20) 61))) =
     Some (Px 80, ''hidden'', ''none'')"
proof -
  have a1: "of_int (max 55 (naturalHeight (textAreaOf (Some 20) 61))) \<le> (of_int 1000 :: rat) / 2.5"
    by (simp add: textAreaOf_def scrollHeight_def)
  have a2: "case parsedLineHeight (textAreaOf (Some 20) 61) of None \<Rightarrow> True | Some n \<Rightarrow> 0 \<le> n"
    by (simp add: textAreaOf_def scrollHeight_def)
  have c: "\<lceil>(61 :: rat) / 20\<rceil> = 4" by (simp add: ceiling_eq_iff)
  show ?thesis
    using a1 unclamped_height_rounds_up [OF a1 a2, of False]
    by (simp add: textAreaOf_def scrollHeight_def lineHeightOf_def c)
qed

text \<open>
  C4 as stated fails in its example: with a line height of 20 and a natural height of
  \<open>55 + 0.3 * 20 = 61\<close> the height is 80, the next multiple of 20, not \<open>55 + 20 = 75\<close>.
\<close>

theorem round_up_from_minimum_counterexample:
  "map_option sizing (layoutEffect 1000 False (Some (textAreaOf (Some 20) 61))) =
     Some (Px 80, ''hidden'', ''none'') \<and>
   map_option sizing (layoutEffect 1000 False (Some (textAreaOf (Some 20) 61))) \<noteq>
     Some (Px (55 + 1 * 20), ''hidden'', ''none'')"
  by code_simp

subsection \<open>C5\<close>




subsection \<open>C6\<close>

text \<open>
  C6, as amended. For every non-empty draft that does not start with a slash, Enter
  with no modifier key clears the draft and dispatches exactly one send, whose body is
  the draft as typed, to the conversation of the pane whose input handled the key.
\<close>

theorem plain_draft_sent:
  assumes "plainEnter e" and "s \<noteq> []" and "\<not> startsWith s ''/''"
  shows "onKeydown db p conversation s e =
           ([PreventDefault,
             SetMessageDraft [],
             Dispatch (SendMessage (conversationId p) s)],
            sendMessageOutcome db (conversationId p) s) \<and>
         draftAfter s (fst (onKeydown db p conversation s e)) = [] \<and>
         dispatched (fst (onKeydown db p conversation s e)) = [SendMessage (conversationId p) s] \<and>
         timers (fst (onKeydown db p conversation s e)) = []"
  using assms by (simp add: onKeydown_def plainEnter_def normalMessageHandling_def)

theorem plain_draft_sent_witness:
  "plainEnter enter \<and> ''  hello there '' \<noteq> [] \<and> \<not> startsWith ''  hello there '' ''/'' \<and>
   draftAfter ''  hello there '' (fst (onKeydown dbCreates paneA None ''  hello there '' enter)) = [] \<and>
   dispatched (fst (onKeydown dbCreates paneA None ''  hello there '' enter)) =
     [SendMessage 3 ''  hello there '']"
proof -
  have h1: "plainEnter enter" by (rule plainEnter_enter)
  have h2: "''  hello there '' \<noteq> []" by simp
  have h3: "\<not> startsWith ''  hello there '' ''/''" by (simp add: startsWith_def)
  show ?thesis
    using h1 h2 h3 plain_draft_sent [OF h1 h2 h3, of dbCreates paneA None]
    by (simp add: paneA_def)
qed

text \<open>
  C6 as stated fails at the empty draft, which does not start with a slash: nothing is
  dispatched for it.
\<close>

theorem empty_plain_draft_counterexample:
  "\<not> startsWith [] ''/'' \<and>
   dispatched (fst (onKeydown dbCreates paneA None [] enter)) = [] \<and>
   dispatched (fst (onKeydown dbCreates paneA None [] enter)) \<noteq> [SendMessage 3 []]"
  by code_simp

subsection \<open>C7\<close>

text \<open>
  C7. A draft that starts with a slash and whose command is not \<^verbatim>\<open>/newpane\<close>, or whose
  content is blank, is handled as a plain message: the draft is cleared and the whole
  draft, unchanged, is sent to the pane's conversation.
\<close>

theorem slash_fallback_plain_message:
  assumes "plainEnter e" and "startsWith d ''/''"
    and "toLowerCase (beforeFirstSpace d) \<noteq> ''/newpane'' \<or> trim (afterFirstSpace d) = []"
  shows "onKeydown db p conversation d e =
           ([PreventDefault,
             SetMessageDraft [],
             Dispatch (SendMessage (conversationId p) d)],
            sendMessageOutcome db (conversationId p) d)"
  using assms by (auto simp add: onKeydown_slash normalMessageHandling_def)

theorem slash_fallback_plain_message_witness:
  "onKeydown dbCreates paneA None ''/unknowncmd foo'' enter =
     ([PreventDefault, SetMessageDraft [], Dispatch (SendMessage 3 ''/unknowncmd foo'')], None) \<and>
   onKeydown dbCreates paneA None ''/newpane'' enter =
     ([PreventDefault, SetMessageDraft [], Dispatch (SendMessage 3 ''/newpane'')], None) \<and>
   onKeydown dbCreates paneA None ''/newpane   '' enter =
     ([PreventDefault, SetMessageDraft [], Dispatch (SendMessage 3 ''/newpane   '')], None)"
proof -
  have h1: "plainEnter enter" by (rule plainEnter_enter)
  have a2: "startsWith ''/unknowncmd foo'' ''/''" by (simp add: startsWith_def)
  have a3: "toLowerCase (beforeFirstSpace ''/unknowncmd foo'') \<noteq> ''/newpane'' \<or>
            trim (afterFirstSpace ''/unknowncmd foo'') = []"
    by (simp add: toLowerCase_def lowerChar_def)
  have b2: "startsWith ''/newpane'' ''/''" by (simp add: startsWith_def)
  have b3: "toLowerCase (beforeFirstSpace ''/newpane'') \<noteq> ''/newpane'' \<or>
            trim (afterFirstSpace ''/newpane'') = []"
    by (simp add: trim_def)
  have c2: "startsWith ''/newpane   '' ''/''" by (simp add: startsWith_def)
  have c3: "toLowerCase (beforeFirstSpace ''/newpane   '') \<noteq> ''/newpane'' \<or>
            trim (afterFirstSpace ''/newpane   '') = []"
    by (simp add: trim_def isWhiteSpace_def)
  show ?thesis
    using slash_fallback_plain_message [OF h1 a2 a3, of dbCreates paneA None]
      slash_fallback_plain_message [OF h1 b2 b3, of dbCreates paneA None]
      slash_fallback_plain_message [OF h1 c2 c3, of dbCreates paneA None]
    by (simp add: paneA_def dbCreates_def)
qed

subsection \<open>C8\<close>

text \<open>
  C8, as amended. On a \<^verbatim>\<open>/newpane\<close> submission whose creation call rejects, the handler
  has already cleared the draft; it stops at the rejected call, so no pane is opened and
  the content is neither sent nor scheduled, and its promise rejects with the reason of
  the creation call. Nothing else happens: the content is discarded and no report goes
  to the pane.
\<close>

theorem newpane_creation_failure:
  assumes "plainEnter e" and "startsWith d ''/''"
    and "toLowerCase (beforeFirstSpace d) = ''/newpane''"
    and "trim (afterFirstSpace d) \<noteq> []"
    and "addConversation db (presetIdOf conversation) = Inl err"
  shows "onKeydown db p conversation d e =
           ([PreventDefault,
             SetMessageDraft [],
             AddConversation (presetIdOf conversation)],
            Some err) \<and>
         dispatched (fst (onKeydown db p conversation d e)) = [] \<and>
         timers (fst (onKeydown db p conversation d e)) = [] \<and>
         draftAfter d (fst (onKeydown db p conversation d e)) = []"
  using assms by (simp add: onKeydown_slash newPaneHandling_def)

theorem newpane_creation_failure_witness:
  "plainEnter enter \<and> startsWith ''/newpane buy milk'' ''/'' \<and>
   addConversation dbFails (presetIdOf None) = Inl (Rejection ''quota exceeded'') \<and>
   dispatched (fst (onKeydown dbFails paneA None ''/newpane buy milk'' enter)) = [] \<and>
   timers (fst (onKeydown dbFails paneA None ''/newpane buy milk'' enter)) = [] \<and>
   draftAfter ''/newpane buy milk''
     (fst (onKeydown dbFails paneA None ''/newpane buy milk'' enter)) = []"
proof -
  have h1: "plainEnter enter" by (rule plainEnter_enter)
  have h2: "startsWith ''/newpane buy milk'' ''/''" by (simp add: startsWith_def)
  have h3: "toLowerCase (beforeFirstSpace ''/newpane buy milk'') = ''/newpane''"
    by (simp add: toLowerCase_def lowerChar_def)
  have h4: "trim (afterFirstSpace ''/newpane buy milk'') \<noteq> []"
    by (simp add: trim_def isWhiteSpace_def)
  have h5: "addConversation dbFails (presetIdOf (None :: nat conversation option)) =
              Inl (Rejection ''quota exceeded'')"
    by (simp add: dbFails_def)
  show ?thesis
    using h1 h2 h5 newpane_creation_failure [OF h1 h2 h3 h4 h5, of paneA]
    by simp
qed

text \<open>
  C8 as stated fails: when the creation call rejects for the draft
  \<^verbatim>\<open>/newpane buy milk\<close>, the handler's whole run is the clearing of the draft and the
  rejected call. The content is gone with the draft, and the rejection of the handler's
  promise is the only trace of the failure.
\<close>

theorem newpane_creation_failure_counterexample:
  "onKeydown dbFails paneA None ''/newpane buy milk'' enter =
     ([PreventDefault, SetMessageDraft [], AddConversation None],
      Some (Rejection ''quota exceeded''))"
  by code_simp

subsection \<open>C9\<close>




subsection \<open>C10\<close>

text \<open>
  C10, as amended. A parsed line height that is NaN or 0 is replaced by 20. When the
  parsed line height is not negative, the line height the effect divides by is
  positive; and when moreover the viewport height is positive, the height the effect
  sets is a positive number of pixels (in the branch that does not clamp it is at
  least 55 whatever the viewport).
\<close>

theorem line_height_fallback_positive:
  assumes "case parsedLineHeight t of None \<Rightarrow> True | Some n \<Rightarrow> 0 \<le> n"
    and "0 < innerHeight"
  shows "lineHeightOf None = 20 \<and> lineHeightOf (Some 0) = 20 \<and>
         0 < lineHeightOf (parsedLineHeight t) \<and>
         (\<exists>x ov tr. map_option sizing (layoutEffect innerHeight f (Some t)) = Some (Px x, ov, tr) \<and>
                    0 < x)"
proof -
  have l: "0 < lineHeightOf (parsedLineHeight t)" using assms(1) by (rule lineHeightOf_pos)
  have f: "lineHeightOf None = 20 \<and> lineHeightOf (Some 0) = 20" by (simp add: lineHeightOf_def)
  have "\<exists>x ov tr. map_option sizing (layoutEffect innerHeight f (Some t)) = Some (Px x, ov, tr) \<and>
                  0 < x"
  proof (cases "of_int (max 55 (naturalHeight t)) \<le> (of_int innerHeight :: rat) / 2.5")
    case True
    define m where "m = \<lceil>(of_int (max 55 (naturalHeight t)) :: rat) /
              of_int (lineHeightOf (parsedLineHeight t))\<rceil> * lineHeightOf (parsedLineHeight t)"
    have "max 55 (naturalHeight t) \<le> m"
      using round_up(2) [OF l, of "max 55 (naturalHeight t)"] by (simp add: m_def)
    then have "0 < m" by simp
    then have p: "(0 :: rat) < of_int m" by simp
    have "map_option sizing (layoutEffect innerHeight f (Some t)) =
            Some (Px (of_int m), ''hidden'', ''none'')"
      using sizing_unclamped [OF True, of f] by (simp add: m_def)
    then show ?thesis using p by blast
  next
    case False
    then have c: "(of_int innerHeight :: rat) / 2.5 < of_int (max 55 (naturalHeight t))"
      by simp
    have p: "(0 :: rat) < of_int innerHeight / 2.5" using assms(2) by simp
    show ?thesis using sizing_clamped [OF c, of f] p by blast
  qed
  then show ?thesis using l f by simp
qed

theorem line_height_fallback_positive_witness:
  "0 < (1000 :: int) \<and>
   lineHeightOf (parsedLineHeight (textAreaOf None 48)) = 20 \<and>
   map_option sizing (layoutEffect 1000 False (Some (textAreaOf None 48))) =
     Some (Px 60, ''hidden'', ''none'')"
proof -
  have a1: "case parsedLineHeight (textAreaOf None 48) of None \<Rightarrow> True | Some n \<Rightarrow> 0 \<le> n"
    by (simp add: textAreaOf_def scrollHeight_def)
  have a2: "0 < (1000 :: int)" by simp
  have e: "map_option sizing (layoutEffect 1000 False (Some (textAreaOf None 48))) =
     Some (Px 60, ''hidden'', ''none'')" by code_simp
  show ?thesis
    using a2 e line_height_fallback_positive [OF a1 a2, of False]
    by (simp add: textAreaOf_def scrollHeight_def)
qed

text \<open>
  C10 as stated fails for a viewport of height 0: the effect clamps, and the height it
  sets is 0 pixels, which is not positive.
\<close>

theorem zero_viewport_height_counterexample:
  "map_option sizing (layoutEffect 0 False (Some (textAreaOf None 48))) =
     Some (Px 0, ''auto'', ''height 0.1s ease-out'')"
  by code_simp

end
